theory Spec2Isabelle
  imports Complex_Main "HOL-Library.Multiset"
begin

section \<open>Overview\<close>

text \<open>
  A model of the transfer clients of the Diamante campaign tool. \<open>diamante.js\<close> is the
  command-line client: \<open>shuffle\<close>, \<open>DiamanteSender.send\<close>, \<open>sendRound\<close> with its queue
  builder, \<open>printSummary\<close> and \<open>main\<close>. \<open>cli.js\<close> is the interactive client: \<open>sendTransaction\<close>
  and \<open>runSending\<close>, which builds and shuffles its queue in place and retries in a loop of
  its own. Everything outside the program is an oracle that the functions consult in
  order: the draws of \<open>Math.random()\<close>, the answers of the transfer API, the readings of
  \<open>Date.now()\<close> and the arrival of \<open>SIGINT\<close>. Amounts, delays and draws are real numbers.
\<close>

section \<open>Arrays on a heap and the random source\<close>

text \<open>
  JavaScript arrays are objects that are passed by reference. The heap is the list of all
  arrays allocated so far; a reference is an index into it, and a fresh array gets the next
  index. \<open>Math.random()\<close> is an oracle: \<open>rnd k\<close> is the value of its \<open>k\<close>-th call, and the
  number of calls made so far is threaded through every function that draws.
\<close>

type_synonym 'a heap = "'a list list"
type_synonym ref = nat

definition alloc :: "'a heap \<Rightarrow> 'a list \<Rightarrow> 'a heap \<times> ref" where
  "alloc h xs = (h @ [xs], length h)"

text \<open>
  \<^verbatim>\<open>[a[i], a[j]] = [a[j], a[i]]\<close> on the array behind reference \<open>q\<close>: both reads happen before
  both writes.
\<close>

definition swap :: "'a heap \<Rightarrow> ref \<Rightarrow> nat \<Rightarrow> nat \<Rightarrow> 'a heap" where
  "swap h q i j = (let a = h ! q; x = a ! j; y = a ! i in h[q := a[i := x, j := y]])"

text \<open>
  The loop of \<open>shuffle\<close>, for \<open>i\<close> from \<open>a.length - 1\<close> down to \<open>1\<close>:
  \<^verbatim>\<open>for (let i = a.length - 1; i > 0; i--) {
    const j = Math.floor(Math.random() * (i + 1));
    [a[i], a[j]] = [a[j], a[i]];
}\<close>
  The first argument is the random source, the second the number of draws made so far.
\<close>

fun shuffle_loop :: "(nat \<Rightarrow> real) \<Rightarrow> nat \<Rightarrow> nat \<Rightarrow> ref \<Rightarrow> 'a heap \<Rightarrow> 'a heap \<times> nat" where
  "shuffle_loop rnd c 0 q h = (h, c)"
| "shuffle_loop rnd c (Suc i) q h =
     (let j = nat \<lfloor>rnd c * real (Suc i + 1)\<rfloor>
      in shuffle_loop rnd (Suc c) i q (swap h q (Suc i) j))"

text \<open>
  \<^verbatim>\<open>const shuffle = (arr) => { const a = [...arr]; for (...) {...} return a; }\<close>
  The result is the new heap, the reference of the returned array and the number of draws.
\<close>

definition shuffle :: "(nat \<Rightarrow> real) \<Rightarrow> nat \<Rightarrow> 'a heap \<Rightarrow> ref \<Rightarrow> 'a heap \<times> ref \<times> nat" where
  "shuffle rnd c h arr =
     (let (h1, a) = alloc h (h ! arr);
          (h2, c') = shuffle_loop rnd c (length (h1 ! a) - 1) a h1
      in (h2, a, c'))"

section \<open>The queue builder\<close>

text \<open>
  The inner loop \<^verbatim>\<open>for (let i = 0; i < sendPerWallet; i++) queue.push(wallet)\<close> and the
  outer loop over the wallets. \<open>sendPerWallet\<close> is an integer that nothing bounds below.
\<close>

function push_sends :: "int \<Rightarrow> int \<Rightarrow> 'a \<Rightarrow> 'a list \<Rightarrow> 'a list" where
  "push_sends i sendPerWallet wallet queue =
     (if i < sendPerWallet then push_sends (i + 1) sendPerWallet wallet (queue @ [wallet])
      else queue)"
  by pat_completeness auto
termination
  by (relation "measure (\<lambda>(i, k, w, q). nat (k - i))") auto

declare push_sends.simps [simp del]

fun push_wallets :: "'a list \<Rightarrow> int \<Rightarrow> 'a list \<Rightarrow> 'a list" where
  "push_wallets [] sendPerWallet queue = queue"
| "push_wallets (wallet # wallets) sendPerWallet queue =
     push_wallets wallets sendPerWallet (push_sends 0 sendPerWallet wallet queue)"

text \<open>
  \<open>buildQueue\<close> of \<open>sendRound\<close>: a local array \<open>queue\<close> is filled and handed to \<open>shuffle\<close>; the
  value of the array that \<open>shuffle\<close> returns is the queue of the round.
\<close>

definition buildQueue :: "(nat \<Rightarrow> real) \<Rightarrow> nat \<Rightarrow> 'a list \<Rightarrow> int \<Rightarrow> 'a list \<times> nat" where
  "buildQueue rnd c wallets sendPerWallet =
     (let (h, queue) = alloc [] (push_wallets wallets sendPerWallet []);
          (h', a, c') = shuffle rnd c h queue
      in (h' ! a, c'))"

text \<open>
  The interactive client builds the same array and shuffles it in place, without a copy.
\<close>

definition cli_buildQueue :: "(nat \<Rightarrow> real) \<Rightarrow> nat \<Rightarrow> 'a list \<Rightarrow> int \<Rightarrow> 'a list \<times> nat" where
  "cli_buildQueue rnd c wallets sendsPerWallet =
     (let (h, queue) = alloc [] (push_wallets wallets sendsPerWallet []);
          (h', c') = shuffle_loop rnd c (length (h ! queue) - 1) queue h
      in (h' ! queue, c'))"

section \<open>Values of the transfer API\<close>

text \<open>
  The fields of a response are JavaScript values. The clients only test them for
  truthiness, compare them with \<open>429\<close> and \<open>true\<close>, and copy them into their results, so the
  primitive values are modelled, numbers as integers; a field that is absent reads as
  \<open>undefined\<close>.
\<close>

datatype jsval = JUndefined | JNull | JBool bool | JNum int | JStr string

fun truthy :: "jsval \<Rightarrow> bool" where
  "truthy JUndefined = False"
| "truthy JNull = False"
| "truthy (JBool b) = b"
| "truthy (JNum n) = (n \<noteq> 0)"
| "truthy (JStr s) = (s \<noteq> [])"

text \<open>\<^verbatim>\<open>a || b\<close>\<close>

definition js_or :: "jsval \<Rightarrow> jsval \<Rightarrow> jsval" where
  "js_or a b = (if truthy a then a else b)"

text \<open>
  What the clients read of the parsed body \<open>data\<close>: \<open>data.status\<close>, \<open>data.success\<close>,
  \<open>data.message\<close>, \<open>data.error\<close>, \<open>data.data?.transferData?.hash\<close>,
  \<open>data.data?.transferData?.txHash\<close>, \<open>data.txHash\<close>, and the text of \<open>JSON.stringify(data)\<close>.
\<close>

record body =
  d_status :: jsval
  d_success :: jsval
  d_message :: jsval
  d_error :: jsval
  d_transfer_hash :: jsval
  d_transfer_txHash :: jsval
  d_txHash :: jsval
  d_json :: string

text \<open>
  A body is JSON text of an object (or of a value whose properties all read as \<open>undefined\<close>),
  the JSON text \<open>null\<close>, or no JSON at all. For a body that is not JSON the oracle gives the
  text of \<^verbatim>\<open>JSON.stringify({ raw: responseText })\<close> and the message of the error that
  \<open>res.json()\<close> raises. A \<open>fetch\<close> either raises an error with a message or answers with an
  HTTP status and a body.
\<close>

datatype parsed = NotJson string string | JsonNull | Json body

datatype fetch_result = Threw string | Responded int parsed

text \<open>The object \<^verbatim>\<open>{ raw: responseText }\<close> that \<open>send\<close> substitutes for a body that is not JSON.\<close>

definition raw_body :: "string \<Rightarrow> body" where
  "raw_body json =
     \<lparr>d_status = JUndefined, d_success = JUndefined, d_message = JUndefined,
      d_error = JUndefined, d_transfer_hash = JUndefined, d_transfer_txHash = JUndefined,
      d_txHash = JUndefined, d_json = json\<rparr>"

text \<open>The check mark that stands for a missing hash, as UTF-8 bytes.\<close>

definition check_mark :: string where
  "check_mark = [CHR 0xE2, CHR 0x9C, CHR 0x93]"

text \<open>The messages of the \<open>TypeError\<close>s that reading a property can raise.\<close>

definition null_status_error :: string where
  "null_status_error = ''Cannot read properties of null (reading 'status')''"

definition includes_error :: string where
  "includes_error = ''data.message.includes is not a function''"

definition slice_error :: string where
  "slice_error = ''result.error?.slice is not a function''"

text \<open>\<^verbatim>\<open>s.includes(p)\<close> on strings.\<close>

fun includes_str :: "string \<Rightarrow> string \<Rightarrow> bool" where
  "includes_str [] p = (p = [])"
| "includes_str (c # s) p = (take (length p) (c # s) = p \<or> includes_str s p)"

section \<open>The world of a run\<close>

text \<open>
  \<open>this.stats\<close> of a \<open>DiamanteSender\<close>. \<open>start\<close> is \<open>null\<close> or a value of \<open>Date.now()\<close>.
\<close>

record stats =
  stats_total :: nat
  stats_success :: nat
  stats_failed :: nat
  stats_amount :: real
  stats_start :: "int option"

text \<open>
  The effects that a run leaves behind, in order: a request to the transfer API for a
  recipient and an amount, the jittered wait between two tasks (seconds), the wait before a
  retry after rate limiting (seconds), and the five second pause between two rounds. The
  interactive client sleeps through a wait one second at a time; the event records the
  number of seconds.
\<close>

datatype event = Submit string real | Delay real | Backoff nat | Pause

text \<open>
  The environment: the values of successive calls of \<open>Math.random()\<close>, the outcomes of
  successive calls of \<open>fetch\<close>, and the values of successive calls of \<open>Date.now()\<close>.
\<close>

record env =
  random :: "nat \<Rightarrow> real"
  network :: "nat \<Rightarrow> fetch_result"
  now :: "nat \<Rightarrow> int"

text \<open>
  The state of a run: the statistics, how many times each oracle has been asked, and the
  effects so far.
\<close>

record world =
  stats :: stats
  draws :: nat
  fetches :: nat
  clock_reads :: nat
  trace :: "event list"

text \<open>\<^verbatim>\<open>this.stats = { total: 0, success: 0, failed: 0, amount: 0, start: null }\<close>\<close>

definition initial_stats :: stats where
  "initial_stats =
     \<lparr>stats_total = 0, stats_success = 0, stats_failed = 0, stats_amount = 0,
      stats_start = None\<rparr>"

definition initial_world :: world where
  "initial_world = \<lparr>stats = initial_stats, draws = 0, fetches = 0, clock_reads = 0, trace = []\<rparr>"

definition emit :: "event \<Rightarrow> world \<Rightarrow> world" where
  "emit e W = W\<lparr>trace := trace W @ [e]\<rparr>"

section \<open>One transfer with retries: \<open>DiamanteSender.send\<close>\<close>

text \<open>
  The result objects \<^verbatim>\<open>{ success: true, hash, toAddress, amount, data }\<close> and
  \<^verbatim>\<open>{ success: false, error, toAddress, amount }\<close>.
\<close>

datatype result = Success jsval string real | Failure jsval string real

fun is_success :: "result \<Rightarrow> bool" where
  "is_success (Success hash to amt) = True"
| "is_success (Failure err to amt) = False"

fun amount_of :: "result \<Rightarrow> real" where
  "amount_of (Success hash to amt) = amt"
| "amount_of (Failure err to amt) = amt"

fun toAddress_of :: "result \<Rightarrow> string" where
  "toAddress_of (Success hash to amt) = to"
| "toAddress_of (Failure err to amt) = to"

text \<open>
  \<^verbatim>\<open>if (retryCount === 0) { this.stats.total++; if (!this.stats.start) this.stats.start = Date.now(); }\<close>
\<close>

definition count_attempt :: "env \<Rightarrow> world \<Rightarrow> world" where
  "count_attempt E W =
     (let W1 = W\<lparr>stats := (stats W)\<lparr>stats_total := stats_total (stats W) + 1\<rparr>\<rparr>
      in if stats_start (stats W1) = None \<or> stats_start (stats W1) = Some 0
         then W1\<lparr>stats := (stats W1)\<lparr>stats_start := Some (now E (clock_reads W1))\<rparr>,
                 clock_reads := Suc (clock_reads W1)\<rparr>
         else W1)"

text \<open>\<^verbatim>\<open>this.stats.failed++\<close>, and \<^verbatim>\<open>this.stats.success++; this.stats.amount += Number(amount)\<close>\<close>

definition count_failed :: "world \<Rightarrow> world" where
  "count_failed W = W\<lparr>stats := (stats W)\<lparr>stats_failed := stats_failed (stats W) + 1\<rparr>\<rparr>"

definition count_success :: "real \<Rightarrow> world \<Rightarrow> world" where
  "count_success amt W =
     W\<lparr>stats := (stats W)\<lparr>stats_success := stats_success (stats W) + 1,
                            stats_amount := stats_amount (stats W) + amt\<rparr>\<rparr>"

text \<open>\<^verbatim>\<open>await fetch(API_URL, ...)\<close>: the next outcome of the network, and the request is recorded.\<close>

definition fetch :: "env \<Rightarrow> string \<Rightarrow> real \<Rightarrow> world \<Rightarrow> fetch_result \<times> world" where
  "fetch E toAddress amt W =
     (network E (fetches W), emit (Submit toAddress amt) (W\<lparr>fetches := Suc (fetches W)\<rparr>))"

text \<open>\<^verbatim>\<open>const waitTime = 5 + retryCount * 3;\<close>\<close>

definition waitTime :: "nat \<Rightarrow> nat" where
  "waitTime retryCount = 5 + retryCount * 3"

text \<open>
  \<^verbatim>\<open>const transferData = data.data?.transferData || {};
const hash = transferData.hash || transferData.txHash || data.txHash || CHECK;\<close>
  where \<open>CHECK\<close> is the string of the one character \<open>check_mark\<close>, and
  \<^verbatim>\<open>const errMsg = data.message || data.error || JSON.stringify(data).slice(0, 60);\<close>
\<close>

definition hash_of :: "body \<Rightarrow> jsval" where
  "hash_of data =
     js_or (d_transfer_hash data)
       (js_or (d_transfer_txHash data) (js_or (d_txHash data) (JStr check_mark)))"

definition errMsg :: "body \<Rightarrow> jsval" where
  "errMsg data = js_or (d_message data) (js_or (d_error data) (JStr (take 60 (d_json data))))"

text \<open>
  \<open>send(toAddress, amount, retryCount)\<close>. A body that is not JSON is replaced by
  \<^verbatim>\<open>{ raw: responseText }\<close>; on the body \<open>null\<close> the read of \<open>data.status\<close> raises, and the
  \<open>catch\<close> block counts a failure. The constant \<open>MAX_RETRIES\<close> of the source is the
  first argument after the environment; the source fixes it to \<open>3\<close>. Every path through
  the \<open>try\<close> block and the \<open>catch\<close> block is a branch.
\<close>

definition parse_body :: "parsed \<Rightarrow> body option" where
  "parse_body p =
     (case p of NotJson raw msg \<Rightarrow> Some (raw_body raw) | JsonNull \<Rightarrow> None | Json b \<Rightarrow> Some b)"

function sendWith :: "env \<Rightarrow> nat \<Rightarrow> string \<Rightarrow> real \<Rightarrow> nat \<Rightarrow> world \<Rightarrow> result \<times> world" where
  "sendWith E maxRetries toAddress amt retryCount W =
     (let W1 = (if retryCount = 0 then count_attempt E W else W);
          (res, W2) = fetch E toAddress amt W1
      in case res of
           Threw msg \<Rightarrow> (Failure (JStr msg) toAddress amt, count_failed W2)
         | Responded status p \<Rightarrow>
             (case parse_body p of
                None \<Rightarrow> (Failure (JStr null_status_error) toAddress amt, count_failed W2)
              | Some data \<Rightarrow>
                  if (d_status data = JNum 429 \<or> status = 429) \<and> retryCount < maxRetries
                  then sendWith E maxRetries toAddress amt (retryCount + 1)
                         (emit (Backoff (waitTime retryCount)) W2)
                  else if d_success data = JBool True
                  then (Success (hash_of data) toAddress amt, count_success amt W2)
                  else (Failure (errMsg data) toAddress amt, count_failed W2)))"
  by pat_completeness auto
termination
  by (relation "measure (\<lambda>(E, n, to, amt, rc, W). n - rc)") auto

declare sendWith.simps [simp del]

definition MAX_RETRIES :: nat where
  "MAX_RETRIES = 3"

definition send :: "env \<Rightarrow> string \<Rightarrow> real \<Rightarrow> world \<Rightarrow> result \<times> world" where
  "send E toAddress amt W = sendWith E MAX_RETRIES toAddress amt 0 W"

section \<open>The dispatch loop of \<open>sendRound\<close>\<close>

text \<open>
  \<^verbatim>\<open>const delay = MIN_DELAY + Math.random() * (MAX_DELAY - MIN_DELAY); await sleep(delay * 1000);\<close>
  \<open>MIN_DELAY\<close> and \<open>MAX_DELAY\<close> are module variables that \<open>main\<close> sets before the run.
\<close>

definition humanDelay :: "env \<Rightarrow> real \<Rightarrow> real \<Rightarrow> world \<Rightarrow> world" where
  "humanDelay E MIN_DELAY MAX_DELAY W =
     (let delay = MIN_DELAY + random E (draws W) * (MAX_DELAY - MIN_DELAY)
      in emit (Delay delay) (W\<lparr>draws := Suc (draws W)\<rparr>))"

text \<open>
  How a loop ends. \<open>main\<close> registers
  \<^verbatim>\<open>process.on('SIGINT', () => { console.log(...Interrupted...); process.exit(130); })\<close>
  before it calls \<open>sendRound\<close>. The handler runs while the loop is suspended in an \<open>await\<close>, and
  \<open>process.exit\<close> ends the process there: the loop never resumes. The signal is part of the
  environment: \<open>sigint = Some m\<close> says that the signal arrives once \<open>m\<close> tasks of the run have
  been processed, while the next task waits for its turn; \<open>None\<close> says that no signal arrives.
\<close>

datatype 'a ending = Exited int world | Returned 'a world

text \<open>
  The \<open>for\<close> loop over the queue. The fourth to sixth arguments are \<open>amount\<close>, the round
  number \<open>iter\<close> and the index \<open>i\<close>; the list is the part of the queue from index \<open>i\<close> on.
  \<^verbatim>\<open>for (let i = 0; i < queue.length; i++) {
    if (i > 0 || iter > 1) await humanDelay();
    const wallet = queue[i];
    const result = await this.send(wallet, amount);
    results.push(result);
}\<close>
\<close>

fun queue_loop ::
  "env \<Rightarrow> nat option \<Rightarrow> real \<Rightarrow> real \<Rightarrow> real \<Rightarrow> nat \<Rightarrow> nat \<Rightarrow> string list \<Rightarrow> result list \<Rightarrow> world
   \<Rightarrow> (result list) ending" where
  "queue_loop E sigint MIN_DELAY MAX_DELAY amt iter i [] results W = Returned results W"
| "queue_loop E sigint MIN_DELAY MAX_DELAY amt iter i (wallet # rest) results W =
     (if sigint = Some (length results) then Exited 130 W
      else
        let W1 = (if i > 0 \<or> iter > 1 then humanDelay E MIN_DELAY MAX_DELAY W else W);
            (result, W2) = send E wallet amt W1
        in queue_loop E sigint MIN_DELAY MAX_DELAY amt iter (i + 1) rest (results @ [result]) W2)"

text \<open>
  The \<open>while (true)\<close> loop over the rounds. With \<open>continuous\<close> set and no \<open>maxIter\<close> it only
  ends by a signal, so it is a partial function. \<open>maxIter\<close> is \<open>null\<close> or a number, and
  \<^verbatim>\<open>maxIter && iter >= maxIter\<close> needs a number other than \<open>0\<close>.
\<close>

partial_function (option) round_loop ::
  "env \<Rightarrow> nat option \<Rightarrow> real \<times> real \<Rightarrow> string list \<Rightarrow> real \<Rightarrow> int \<Rightarrow> bool \<Rightarrow> int option \<Rightarrow> nat
   \<Rightarrow> result list \<Rightarrow> world \<Rightarrow> (result list) ending option" where
  "round_loop E sigint delays wallets amt sendPerWallet continuous_mode maxIter iter results W =
     (case buildQueue (random E) (draws W) wallets sendPerWallet of
        (queue, c) \<Rightarrow>
          (case queue_loop E sigint (fst delays) (snd delays) amt (iter + 1) 0 queue results
                  (W\<lparr>draws := c\<rparr>) of
             Exited code W1 \<Rightarrow> Some (Exited code W1)
           | Returned results1 W1 \<Rightarrow>
               if \<not> continuous_mode then Some (Returned results1 W1)
               else if (case maxIter of None \<Rightarrow> False
                        | Some m \<Rightarrow> m \<noteq> 0 \<and> int (iter + 1) \<ge> m)
               then Some (Returned results1 W1)
               else round_loop E sigint delays wallets amt sendPerWallet continuous_mode maxIter
                      (iter + 1) results1 (emit Pause W1)))"

declare round_loop.simps [code]

text \<open>
  What \<open>printSummary\<close> computes before it formats:
  \<^verbatim>\<open>const elapsed = s.start ? (Date.now() - s.start) / 1000 : 0;
const tps = elapsed > 0 ? s.total / elapsed : 0;\<close>
\<close>

record summary =
  sum_total :: nat
  sum_success :: nat
  sum_failed :: nat
  sum_amount :: real
  sum_elapsed :: real
  sum_tps :: real

definition elapsed_of :: "int option \<Rightarrow> int \<Rightarrow> real" where
  "elapsed_of start t =
     (case start of None \<Rightarrow> 0
      | Some s \<Rightarrow> if s = 0 then 0 else real_of_int (t - s) / 1000)"

definition tps_of :: "nat \<Rightarrow> real \<Rightarrow> real" where
  "tps_of n elapsed = (if elapsed > 0 then real n / elapsed else 0)"

definition printSummary :: "env \<Rightarrow> world \<Rightarrow> summary" where
  "printSummary E W =
     (let s = stats W;
          elapsed = elapsed_of (stats_start s) (now E (clock_reads W));
          tps = tps_of (stats_total s) elapsed
      in \<lparr>sum_total = stats_total s, sum_success = stats_success s,
          sum_failed = stats_failed s, sum_amount = stats_amount s,
          sum_elapsed = elapsed, sum_tps = tps\<rparr>)"

text \<open>
  \<open>sendRound(wallets, amount, sendPerWallet, continuous, maxIter)\<close> on a sender whose state is
  \<open>W\<close>. No statement of the loop raises for recipients that are strings, so the \<open>catch\<close> block
  after the loop, which lets an error with the message \<open>interrupted\<close> pass, has no branch
  here. A loop that returns is followed by \<open>printSummary\<close>; a process that has exited prints
  nothing more.
\<close>

definition sendRound ::
  "env \<Rightarrow> nat option \<Rightarrow> real \<times> real \<Rightarrow> string list \<Rightarrow> real \<Rightarrow> int \<Rightarrow> bool \<Rightarrow> int option \<Rightarrow> world
   \<Rightarrow> (result list \<times> summary) ending option" where
  "sendRound E sigint delays wallets amt sendPerWallet continuous_mode maxIter W =
     (case round_loop E sigint delays wallets amt sendPerWallet continuous_mode maxIter 0 [] W of
        None \<Rightarrow> None
      | Some (Exited code W1) \<Rightarrow> Some (Exited code W1)
      | Some (Returned results W1) \<Rightarrow> Some (Returned (results, printSummary E W1) W1))"

section \<open>\<open>main\<close> of the command-line client\<close>

text \<open>
  The options after \<open>parseArgs\<close> and the object that \<open>loadConfig\<close> reads from \<open>config.json\<close>.
  An option that was not given is \<open>None\<close>; so is a number that \<open>parseInt\<close> could not read.
  \<open>opt_amount\<close> is the number that \<open>Number\<close> makes of the text after \<open>--amount\<close>; the text
  itself is what \<open>||\<close> tests, and a text that is given is not empty. The \<open>delays\<close> object
  of the file is modelled with both of its fields.
\<close>

record opts =
  opt_token :: "string option"
  opt_to :: "string option"
  opt_amount :: "real option"
  opt_sendPerWallet :: "int option"
  opt_continuous :: bool
  opt_iterations :: "int option"
  opt_fast :: bool
  opt_history :: bool
  opt_config :: bool

record config =
  accessToken :: "string option"
  cfg_sendPerWallet :: "int option"
  amountPerSend :: "real option"
  cfg_wallets :: "string list option"
  cfg_delays :: "(real \<times> real) option"
  cfg_continuous :: bool
  maxIterations :: "int option"

text \<open>
  \<^verbatim>\<open>config?.field\<close> on a configuration that may be \<open>null\<close>, and \<^verbatim>\<open>a || b\<close> for a string
  or a number \<open>a\<close> that may be missing: the empty string and \<open>0\<close> are falsy.
\<close>

definition field :: "config option \<Rightarrow> (config \<Rightarrow> 'a option) \<Rightarrow> 'a option" where
  "field cfg f = (case cfg of None \<Rightarrow> None | Some c \<Rightarrow> f c)"

definition truthy_str :: "string option \<Rightarrow> bool" where
  "truthy_str s = (case s of None \<Rightarrow> False | Some t \<Rightarrow> t \<noteq> [])"

definition str_or :: "string option \<Rightarrow> string option \<Rightarrow> string option" where
  "str_or a b = (if truthy_str a then a else b)"

definition int_or :: "int option \<Rightarrow> int \<Rightarrow> int" where
  "int_or a b = (case a of None \<Rightarrow> b | Some k \<Rightarrow> if k \<noteq> 0 then k else b)"

definition real_or :: "real option \<Rightarrow> real \<Rightarrow> real" where
  "real_or a b = (case a of None \<Rightarrow> b | Some x \<Rightarrow> if x \<noteq> 0 then x else b)"

text \<open>\<^verbatim>\<open>opts.to.split(',').map(a => a.trim()).filter(Boolean)\<close>, with the ASCII white space.\<close>

fun split_on :: "char \<Rightarrow> string \<Rightarrow> string list" where
  "split_on c [] = [[]]"
| "split_on c (x # xs) =
     (if x = c then [] # split_on c xs
      else (case split_on c xs of [] \<Rightarrow> [[x]] | y # ys \<Rightarrow> (x # y) # ys))"

definition is_space :: "char \<Rightarrow> bool" where
  "is_space c = (c \<in> set [CHR '' '', CHR 0x09, CHR 0x0A, CHR 0x0B, CHR 0x0C, CHR 0x0D])"

definition trim :: "string \<Rightarrow> string" where
  "trim s = rev (dropWhile is_space (rev (dropWhile is_space s)))"

definition parse_to :: "string \<Rightarrow> string list" where
  "parse_to s = filter (\<lambda>a. a \<noteq> []) (map trim (split_on CHR '','' s))"

text \<open>How the process ends: the text of a fatal error and the exit code are kept.\<close>

datatype process_end =
    ConfigError string
  | HistoryShown
  | Interrupted world
  | Done "result list" summary world

fun exit_code :: "process_end \<Rightarrow> int" where
  "exit_code (ConfigError msg) = 1"
| "exit_code HistoryShown = 0"
| "exit_code (Interrupted W) = 130"
| "exit_code (Done results s W) = (if list_ex (\<lambda>r. \<not> is_success r) results then 1 else 0)"

text \<open>Whether the run reached the dispatch loop, and the requests it made.\<close>

fun requests_made :: "process_end \<Rightarrow> nat" where
  "requests_made (ConfigError msg) = 0"
| "requests_made HistoryShown = 0"
| "requests_made (Interrupted W) = fetches W"
| "requests_made (Done results s W) = fetches W"

text \<open>
  \<open>main\<close> from the options on; \<open>file\<close> is the value of \<open>loadConfig()\<close>, which is \<open>None\<close> when the
  file is missing or unreadable. The file is only read when \<open>--config\<close> is given or no token
  is:
  \<^verbatim>\<open>let config = null;
if (opts.config || !opts.token) { config = loadConfig(); ... }\<close>
\<close>

definition loaded_config :: "opts \<Rightarrow> config option \<Rightarrow> config option" where
  "loaded_config opts file =
     (if opt_config opts \<or> \<not> truthy_str (opt_token opts) then file else None)"

text \<open>
  \<^verbatim>\<open>const wallets = opts.to
    ? opts.to.split(',').map(a => a.trim()).filter(Boolean)
    : config?.wallets || [];\<close>
\<close>

definition main_wallets :: "opts \<Rightarrow> config option \<Rightarrow> string list" where
  "main_wallets opts cfg =
     (case opt_to opts of
        None \<Rightarrow> (case field cfg cfg_wallets of None \<Rightarrow> [] | Some ws \<Rightarrow> ws)
      | Some t \<Rightarrow>
          if t \<noteq> [] then parse_to t
          else (case field cfg cfg_wallets of None \<Rightarrow> [] | Some ws \<Rightarrow> ws))"

text \<open>\<^verbatim>\<open>const sendPerWallet = opts.sendPerWallet || config?.sendPerWallet || 2;\<close>\<close>

definition main_sendPerWallet :: "opts \<Rightarrow> config option \<Rightarrow> int" where
  "main_sendPerWallet opts cfg =
     int_or (opt_sendPerWallet opts) (int_or (field cfg cfg_sendPerWallet) 2)"

text \<open>
  The rest of \<open>main\<close>:
  \<^verbatim>\<open>const token = opts.token || config?.accessToken;
const amount = opts.amount || config?.amountPerSend || '1';
const continuous = opts.continuous || config?.continuous || false;
const maxIter = opts.iterations || config?.maxIterations || null;
if (config?.delays) { MIN_DELAY = config.delays.min; MAX_DELAY = config.delays.max; }
if (opts.fast) { MIN_DELAY = 0.5; MAX_DELAY = 1.0; }
if (!token) { console.error(...); process.exit(1); }
if (wallets.length === 0) { console.error(...); process.exit(1); }
const sender = new DiamanteSender(token);
if (opts.history) { ...; return; }
process.on('SIGINT', ...);
const results = await sender.sendRound(wallets, amount, sendPerWallet, continuous, maxIter);
process.exit(results.some(r => !r.success) ? 1 : 0);\<close>
\<close>

definition main :: "env \<Rightarrow> nat option \<Rightarrow> opts \<Rightarrow> config option \<Rightarrow> process_end option" where
  "main E sigint opts file =
     (let cfg = loaded_config opts file
      in if (opt_config opts \<or> \<not> truthy_str (opt_token opts)) \<and> cfg = None
             \<and> \<not> truthy_str (opt_token opts)
         then Some (ConfigError ''Error: No config.json found and no --token provided'')
         else
           let token = str_or (opt_token opts) (field cfg accessToken);
               wallets = main_wallets opts cfg;
               amt = (case opt_amount opts of
                        None \<Rightarrow> real_or (field cfg amountPerSend) 1
                      | Some a \<Rightarrow> a);
               sendPerWallet = main_sendPerWallet opts cfg;
               continuous_mode =
                 (opt_continuous opts \<or> (case cfg of None \<Rightarrow> False | Some c \<Rightarrow> cfg_continuous c));
               maxIter = (case opt_iterations opts of
                            None \<Rightarrow> field cfg maxIterations
                          | Some m \<Rightarrow> if m \<noteq> 0 then Some m else field cfg maxIterations);
               delays0 = (case field cfg cfg_delays of None \<Rightarrow> (1.5, 4.0) | Some d \<Rightarrow> d);
               delays = (if opt_fast opts then (0.5, 1.0) else delays0)
           in if \<not> truthy_str token then Some (ConfigError ''Error: --token is required'')
              else if length wallets = 0 then Some (ConfigError ''Error: No wallets provided'')
              else if opt_history opts then Some HistoryShown
              else (case sendRound E sigint delays wallets amt sendPerWallet continuous_mode
                           maxIter initial_world of
                      None \<Rightarrow> None
                    | Some (Exited code W) \<Rightarrow> Some (Interrupted W)
                    | Some (Returned (results, s) W) \<Rightarrow> Some (Done results s W)))"

section \<open>The interactive client\<close>

text \<open>
  What \<open>sendTransaction\<close> returns: \<^verbatim>\<open>{ retry: true, waitTime, retryCount }\<close>,
  \<^verbatim>\<open>{ success: true, hash }\<close> or \<^verbatim>\<open>{ success: false, error }\<close>.
\<close>

datatype cli_result = Retry nat nat | CliSuccess jsval | CliFailure jsval

fun is_retry :: "cli_result \<Rightarrow> bool" where
  "is_retry (Retry w rc) = True"
| "is_retry (CliSuccess hash) = False"
| "is_retry (CliFailure err) = False"

text \<open>
  \<^verbatim>\<open>data.status === 429 || res.status === 429 || (data.message && data.message.includes('guardian'))\<close>
  The last test raises a \<open>TypeError\<close> when it is reached with a message that is truthy and
  not a string.
\<close>

definition cli_rate_limited :: "int \<Rightarrow> body \<Rightarrow> string + bool" where
  "cli_rate_limited status data =
     (if d_status data = JNum 429 \<or> status = 429 then Inr True
      else if \<not> truthy (d_message data) then Inr False
      else (case d_message data of
              JStr s \<Rightarrow> Inr (includes_str s ''guardian'')
            | _ \<Rightarrow> Inl includes_error))"

text \<open>\<^verbatim>\<open>const waitTime = 15 + retryCount * 10;  // 15s, 25s, 35s\<close>\<close>

definition cli_waitTime :: "nat \<Rightarrow> nat" where
  "cli_waitTime retryCount = 15 + retryCount * 10"

text \<open>
  \<open>sendTransaction(token, userId, toAddress, amount, retryCount)\<close>; as for \<open>send\<close>, the
  constant \<open>MAX_RETRIES = 3\<close> of the source is an argument. Every error raised inside is
  caught and becomes a failure with the message of the error.
\<close>

definition sendTransactionWith ::
  "env \<Rightarrow> nat \<Rightarrow> string \<Rightarrow> real \<Rightarrow> nat \<Rightarrow> world \<Rightarrow> cli_result \<times> world" where
  "sendTransactionWith E maxRetries toAddress amt retryCount W =
     (case fetch E toAddress amt W of
        (Threw msg, W1) \<Rightarrow> (CliFailure (JStr msg), W1)
      | (Responded status (NotJson raw msg), W1) \<Rightarrow> (CliFailure (JStr msg), W1)
      | (Responded status JsonNull, W1) \<Rightarrow> (CliFailure (JStr null_status_error), W1)
      | (Responded status (Json data), W1) \<Rightarrow>
          (case cli_rate_limited status data of
             Inl msg \<Rightarrow> (CliFailure (JStr msg), W1)
           | Inr limited \<Rightarrow>
               if limited \<and> retryCount < maxRetries
               then (Retry (cli_waitTime retryCount) (retryCount + 1), W1)
               else if truthy (d_success data)
               then (CliSuccess (js_or (d_transfer_hash data) (JStr check_mark)), W1)
               else (CliFailure (js_or (d_message data) (JStr ''Failed'')), W1)))"

text \<open>
  The retry loop of \<open>runSending\<close>:
  \<^verbatim>\<open>while (result.retry) {
    let remaining = result.waitTime;
    while (remaining > 0) { await sleep(1000); remaining--; }
    result = await sendTransaction(token, userId, wallet, amount, result.retryCount);
}\<close>
\<close>

function retry_loop ::
  "env \<Rightarrow> nat \<Rightarrow> string \<Rightarrow> real \<Rightarrow> cli_result \<Rightarrow> world \<Rightarrow> cli_result \<times> world" where
  "retry_loop E maxRetries wallet amt result W =
     (case result of
        Retry w retryCount \<Rightarrow>
          (case sendTransactionWith E maxRetries wallet amt retryCount (emit (Backoff w) W) of
             (result1, W1) \<Rightarrow> retry_loop E maxRetries wallet amt result1 W1)
      | _ \<Rightarrow> (result, W))"
  by pat_completeness auto
termination
  by (relation "measure (\<lambda>(E, n, wallet, amt, result, W).
                  case result of Retry w rc \<Rightarrow> Suc (n - rc) | _ \<Rightarrow> 0)")
     (auto simp: sendTransactionWith_def split: prod.splits fetch_result.splits parsed.splits
        sum.splits if_splits cli_result.splits)

declare retry_loop.simps [simp del]

text \<open>The first submission of a task followed by the retry loop.\<close>

definition cli_submit :: "env \<Rightarrow> nat \<Rightarrow> string \<Rightarrow> real \<Rightarrow> world \<Rightarrow> cli_result \<times> world" where
  "cli_submit E maxRetries wallet amt W =
     (case sendTransactionWith E maxRetries wallet amt 0 W of
        (result, W1) \<Rightarrow> retry_loop E maxRetries wallet amt result W1)"

text \<open>
  \<^verbatim>\<open>const delay = Math.floor(minDelay + Math.random() * (maxDelay - minDelay));\<close>
  followed by a countdown that sleeps one second \<open>delay\<close> times.
\<close>

definition cli_delay :: "real \<Rightarrow> real \<Rightarrow> real \<Rightarrow> int" where
  "cli_delay minDelay maxDelay r = \<lfloor>minDelay + r * (maxDelay - minDelay)\<rfloor>"

text \<open>
  \<^verbatim>\<open>result.error?.slice(0, 30)\<close> raises a \<open>TypeError\<close> on an error that is a number or a
  boolean; nothing in \<open>runSending\<close> catches it.
\<close>

fun slice_raises :: "jsval \<Rightarrow> bool" where
  "slice_raises (JNum n) = True"
| "slice_raises (JBool b) = True"
| "slice_raises v = False"

text \<open>
  The dispatch loop of \<open>runSending\<close>, with the counters \<open>success\<close> and \<open>failed\<close>. \<open>Inl\<close> is an
  error that leaves the loop.
\<close>

fun cli_loop ::
  "env \<Rightarrow> real \<Rightarrow> real \<Rightarrow> real \<Rightarrow> nat \<Rightarrow> string list \<Rightarrow> nat \<times> nat \<Rightarrow> world
   \<Rightarrow> (string \<times> world) + ((nat \<times> nat) \<times> world)" where
  "cli_loop E minDelay maxDelay amt i [] counters W = Inr (counters, W)"
| "cli_loop E minDelay maxDelay amt i (wallet # rest) counters W =
     (let W1 = (if i > 0
                then emit (Delay (real_of_int (cli_delay minDelay maxDelay (random E (draws W)))))
                       (W\<lparr>draws := Suc (draws W)\<rparr>)
                else W);
          (result, W2) = cli_submit E MAX_RETRIES wallet amt W1
      in case result of
           CliSuccess hash \<Rightarrow>
             cli_loop E minDelay maxDelay amt (i + 1) rest (fst counters + 1, snd counters) W2
         | CliFailure err \<Rightarrow>
             if slice_raises err then Inl (slice_error, W2)
             else cli_loop E minDelay maxDelay amt (i + 1) rest (fst counters, snd counters + 1) W2
         | Retry w rc \<Rightarrow>
             cli_loop E minDelay maxDelay amt (i + 1) rest (fst counters, snd counters + 1) W2)"

text \<open>
  \<open>runSending(config)\<close>:
  \<^verbatim>\<open>const wallets = config.wallets || [];
const sendsPerWallet = config.sendPerWallet || 2;
const amount = config.amountPerSend || 1;
const minDelay = config.delays?.min || 92.4;
const maxDelay = config.delays?.max || 143.7;
if (wallets.length === 0) { console.log('no wallets configured'); return; }\<close>
\<close>

datatype cli_end = NoWallets | Crashed string world | Finished nat nat world

definition cli_wallets :: "config \<Rightarrow> string list" where
  "cli_wallets c = (case cfg_wallets c of None \<Rightarrow> [] | Some ws \<Rightarrow> ws)"

definition cli_sendsPerWallet :: "config \<Rightarrow> int" where
  "cli_sendsPerWallet c = int_or (cfg_sendPerWallet c) 2"

definition runSending :: "env \<Rightarrow> config \<Rightarrow> cli_end" where
  "runSending E c =
     (let wallets = cli_wallets c;
          sendsPerWallet = cli_sendsPerWallet c;
          amt = real_or (amountPerSend c) 1;
          minDelay = real_or (map_option fst (cfg_delays c)) 92.4;
          maxDelay = real_or (map_option snd (cfg_delays c)) 143.7
      in if length wallets = 0 then NoWallets
         else
           (case cli_buildQueue (random E) 0 wallets sendsPerWallet of
              (queue, n) \<Rightarrow>
                (case cli_loop E minDelay maxDelay amt 0 queue (0, 0)
                        (initial_world\<lparr>draws := n\<rparr>) of
                   Inl (msg, W) \<Rightarrow> Crashed msg W
                 | Inr ((success, failed), W) \<Rightarrow> Finished success failed W)))"

text \<open>
  The settings menu: \<^verbatim>\<open>if (val) { config.sendPerWallet = parseInt(val) || 2; saveConfig(config); }\<close>
  The argument is the value of \<open>parseInt(val)\<close> for a text \<open>val\<close> that is not empty.
\<close>

definition set_sendPerWallet :: "int option \<Rightarrow> config \<Rightarrow> config" where
  "set_sendPerWallet parsed_val c =
     c\<lparr>cfg_sendPerWallet := Some (int_or parsed_val 2)\<rparr>"

section \<open>Auxiliary definitions for the proofs\<close>

text \<open>The three ways in which one call of sendWith continues after its request.\<close>

definition after_fetch :: "env \<Rightarrow> string \<Rightarrow> real \<Rightarrow> nat \<Rightarrow> world \<Rightarrow> world" where
  "after_fetch E to amt rc W = snd (fetch E to amt (if rc = 0 then count_attempt E W else W))"

definition attempt_events :: "string \<Rightarrow> real \<Rightarrow> nat \<Rightarrow> nat \<Rightarrow> event list" where
  "attempt_events to amt rc k =
     Submit to amt # concat (map (\<lambda>j. [Backoff (waitTime j), Submit to amt]) [rc ..< rc + k])"

definition send_effect ::
  "nat \<Rightarrow> string \<Rightarrow> real \<Rightarrow> nat \<Rightarrow> world \<Rightarrow> result \<times> world \<Rightarrow> bool" where
  "send_effect n to amt rc W out =
     (fetches W < fetches (snd out) \<and> fetches (snd out) \<le> fetches W + (n - rc) + 1
    \<and> draws (snd out) = draws W
    \<and> stats_total (stats (snd out)) = stats_total (stats W) + (if rc = 0 then 1 else 0)
    \<and> stats_success (stats (snd out))
        = stats_success (stats W) + (if is_success (fst out) then 1 else 0)
    \<and> stats_failed (stats (snd out))
        = stats_failed (stats W) + (if is_success (fst out) then 0 else 1)
    \<and> stats_amount (stats (snd out))
        = stats_amount (stats W) + (if is_success (fst out) then amt else 0)
    \<and> amount_of (fst out) = amt \<and> toAddress_of (fst out) = to
    \<and> trace (snd out)
        = trace W @ attempt_events to amt rc (fetches (snd out) - fetches W - 1))"

definition cli_events :: "string \<Rightarrow> real \<Rightarrow> nat \<Rightarrow> nat \<Rightarrow> event list" where
  "cli_events to amt rc k =
     concat (map (\<lambda>j. [Backoff (cli_waitTime j), Submit to amt]) [rc ..< rc + k])"

definition retry_effect ::
  "nat \<Rightarrow> string \<Rightarrow> real \<Rightarrow> cli_result \<Rightarrow> world \<Rightarrow> cli_result \<times> world \<Rightarrow> bool" where
  "retry_effect n to amt result W out =
     (\<not> is_retry (fst out) \<and> draws (snd out) = draws W \<and> stats (snd out) = stats W
      \<and> (case result of
            Retry w rc \<Rightarrow>
              fetches W < fetches (snd out) \<and> fetches (snd out) \<le> fetches W + (n - rc) + 1
              \<and> trace (snd out)
                  = trace W @ Backoff w # Submit to amt
                      # cli_events to amt rc (fetches (snd out) - fetches W - 1)
          | _ \<Rightarrow> out = (result, W)))"

text \<open>The seconds of the waits before retries, in the order of the trace.\<close>

fun backoffs :: "event list \<Rightarrow> nat list" where
  "backoffs [] = []"
| "backoffs (Backoff w # es) = w # backoffs es"
| "backoffs (e # es) = backoffs es"






text \<open>
  The waits that a loop over \<open>n\<close> tasks is expected to record when the wait of the task
  that uses draw \<open>c\<close> is \<open>f c\<close>: \<open>delayed\<close> says whether the first task of the loop waits.
\<close>

fun loop_waits :: "(nat \<Rightarrow> real) \<Rightarrow> nat \<Rightarrow> bool \<Rightarrow> real option \<Rightarrow> nat \<Rightarrow> real option list" where
  "loop_waits f c delayed w0 0 = []"
| "loop_waits f c delayed w0 (Suc n) =
     (if delayed then Some (f c) # loop_waits f (Suc c) True None n
      else w0 # loop_waits f c True None n)"


section \<open>Concrete random sources\<close>

text \<open>Two sequences of draws used to run the model: every draw \<open>0.5\<close>, and every draw \<open>0\<close>.\<close>

definition draws_half :: "nat \<Rightarrow> real" where "draws_half k = 1 / 2"

definition draws_zero :: "nat \<Rightarrow> real" where "draws_zero k = 0"

section \<open>Concrete environments\<close>

text \<open>
  Responses used to run the model: a body that reports rate limiting with status \<open>429\<close>, and
  a body that reports a transfer with a hash. The network answers every request with the
  first, every request with the second, or the first two requests with the first and all
  later ones with the second. \<open>Date.now()\<close> advances by one second per call.
\<close>

definition body_limited :: body where
  \<open>body_limited =
     \<lparr>d_status = JNum 429, d_success = JBool False, d_message = JStr ''Too many requests'',
      d_error = JUndefined, d_transfer_hash = JUndefined, d_transfer_txHash = JUndefined,
      d_txHash = JUndefined,
      d_json = ''{"status":429,"success":false,"message":"Too many requests"}''\<rparr>\<close>

definition body_ok :: body where
  \<open>body_ok =
     \<lparr>d_status = JNum 200, d_success = JBool True, d_message = JUndefined,
      d_error = JUndefined, d_transfer_hash = JStr ''0xabc'', d_transfer_txHash = JUndefined,
      d_txHash = JUndefined,
      d_json = ''{"status":200,"success":true,"data":{"transferData":{"hash":"0xabc"}}}''\<rparr>\<close>


definition net_ok :: "nat \<Rightarrow> fetch_result" where
  "net_ok k = Responded 200 (Json body_ok)"

definition net_limited_twice :: "nat \<Rightarrow> fetch_result" where
  "net_limited_twice k = (if k < 2 then Responded 429 (Json body_limited) else Responded 200 (Json body_ok))"

definition clock :: "nat \<Rightarrow> int" where
  "clock k = 1000 + 1000 * int k"


definition env_ok :: env where
  "env_ok = \<lparr>random = draws_half, network = net_ok, now = clock\<rparr>"

definition env_limited_twice :: env where
  "env_limited_twice = \<lparr>random = draws_half, network = net_limited_twice, now = clock\<rparr>"


definition cfg_one :: config where
  "cfg_one =
     \<lparr>accessToken = Some ''token'', cfg_sendPerWallet = Some 2, amountPerSend = Some 1,
      cfg_wallets = Some [''0xA''], cfg_delays = None, cfg_continuous = False,
      maxIterations = None\<rparr>"



definition opts_one :: opts where
  "opts_one =
     \<lparr>opt_token = Some ''token'', opt_to = Some ''0xA'', opt_amount = None,
      opt_sendPerWallet = Some 1, opt_continuous = False, opt_iterations = None,
      opt_fast = False, opt_history = False, opt_config = False\<rparr>"

definition opts_zero_sends :: opts where
  "opts_zero_sends = opts_one\<lparr>opt_sendPerWallet := Some 0\<rparr>"

definition opts_no_wallets :: opts where
  "opts_no_wallets = opts_one\<lparr>opt_to := None, opt_sendPerWallet := Some 0\<rparr>"



definition opts_three :: opts where
  "opts_three = opts_one\<lparr>opt_to := Some ''0xAAA,0xBBB,0xCCC'', opt_sendPerWallet := Some 2\<rparr>"

definition cfg_no_wallets :: config where
  "cfg_no_wallets = cfg_one\<lparr>cfg_wallets := None\<rparr>"

section \<open>Properties of the shuffle\<close>

lemma push_sends_eq: "push_sends i k w q = q @ replicate (nat (k - i)) w"
proof (induction i k w q rule: push_sends.induct)
  case (1 i k w q)
  show ?case
  proof (cases "i < k")
    case True
    then have "nat (k - i) = Suc (nat (k - (i + 1)))" by simp
    with True "1" show ?thesis
      by (subst push_sends.simps) (simp add: replicate_append_same)
  next
    case False
    then show ?thesis by (subst push_sends.simps) simp
  qed
qed

lemma push_wallets_eq:
  "push_wallets ws k q = q @ concat (map (replicate (nat k)) ws)"
  by (induction ws arbitrary: q) (simp_all add: push_sends_eq)

lemma rand_index_le:
  assumes "0 \<le> r" "r < 1"
  shows "nat \<lfloor>r * real (Suc i + 1)\<rfloor> \<le> Suc i"
proof -
  have "r * real (Suc i + 1) < real (Suc i + 1)"
    using assms by (simp add: mult_less_cancel_right1)
  then have "\<lfloor>r * real (Suc i + 1)\<rfloor> < int (Suc i + 1)"
    by (simp add: floor_less_iff)
  then show ?thesis by simp
qed

lemma swap_cell:
  "q < length h \<Longrightarrow> swap h q i j ! q = (h ! q)[i := h ! q ! j, j := h ! q ! i]"
  by (simp add: swap_def Let_def)

lemma swap_other: "p \<noteq> q \<Longrightarrow> swap h q i j ! p = h ! p"
  by (simp add: swap_def Let_def)

lemma length_swap: "length (swap h q i j) = length h"
  by (simp add: swap_def Let_def)

lemma mset_swap_cell:
  "q < length h \<Longrightarrow> i < length (h ! q) \<Longrightarrow> j < length (h ! q) \<Longrightarrow>
   mset (swap h q i j ! q) = mset (h ! q)"
  by (simp add: swap_cell mset_swap)

lemma length_swap_cell:
  "q < length h \<Longrightarrow> length (swap h q i j ! q) = length (h ! q)"
  by (simp add: swap_cell)

lemma shuffle_loop_props:
  assumes "\<forall>k. 0 \<le> rnd k \<and> rnd k < 1" "q < length h" "i < length (h ! q)"
  shows "length (fst (shuffle_loop rnd c i q h)) = length h
       \<and> (\<forall>p. p \<noteq> q \<longrightarrow> fst (shuffle_loop rnd c i q h) ! p = h ! p)
       \<and> mset (fst (shuffle_loop rnd c i q h) ! q) = mset (h ! q)
       \<and> snd (shuffle_loop rnd c i q h) = c + i"
  using assms(2,3)
proof (induction i arbitrary: c h)
  case 0
  then show ?case by simp
next
  case (Suc i)
  define j where "j = nat \<lfloor>rnd c * real (Suc i + 1)\<rfloor>"
  define h1 where "h1 = swap h q (Suc i) j"
  have j: "j \<le> Suc i" unfolding j_def using assms(1) by (intro rand_index_le) auto
  have q1: "q < length h1" using Suc.prems by (simp add: h1_def length_swap)
  have l1: "length (h1 ! q) = length (h ! q)"
    using Suc.prems by (simp add: h1_def length_swap_cell)
  have m1: "mset (h1 ! q) = mset (h ! q)"
    unfolding h1_def using Suc.prems j by (intro mset_swap_cell) auto
  have o1: "\<And>p. p \<noteq> q \<Longrightarrow> h1 ! p = h ! p" by (simp add: h1_def swap_other)
  have step: "shuffle_loop rnd c (Suc i) q h = shuffle_loop rnd (Suc c) i q h1"
    by (simp add: j_def h1_def Let_def)
  have IH: "length (fst (shuffle_loop rnd (Suc c) i q h1)) = length h1
       \<and> (\<forall>p. p \<noteq> q \<longrightarrow> fst (shuffle_loop rnd (Suc c) i q h1) ! p = h1 ! p)
       \<and> mset (fst (shuffle_loop rnd (Suc c) i q h1) ! q) = mset (h1 ! q)
       \<and> snd (shuffle_loop rnd (Suc c) i q h1) = Suc c + i"
    using Suc.prems l1 by (intro Suc.IH q1) simp
  show ?case unfolding step using IH m1 o1 by (simp add: h1_def length_swap)
qed

lemma count_list_replicate: "count_list (replicate n x) w = (if x = w then n else 0)"
  by (induction n) auto

lemma count_list_concat_replicate:
  "count_list (concat (map (replicate n) ws)) w = n * count_list ws w"
  by (induction ws) (simp_all add: count_list_append count_list_replicate)


lemma shuffle_props:
  assumes "\<forall>k. 0 \<le> rnd k \<and> rnd k < 1" "arr < length h"
  shows "fst (snd (shuffle rnd c h arr)) = length h
       \<and> length (fst (shuffle rnd c h arr)) = Suc (length h)
       \<and> (\<forall>p < length h. fst (shuffle rnd c h arr) ! p = h ! p)
       \<and> mset (fst (shuffle rnd c h arr) ! length h) = mset (h ! arr)
       \<and> snd (snd (shuffle rnd c h arr)) = c + (length (h ! arr) - 1)"
proof (cases "h ! arr = []")
  case True
  then show ?thesis
    by (simp add: shuffle_def alloc_def nth_append)
next
  case False
  let ?h1 = "h @ [h ! arr]"
  let ?q = "length h"
  let ?i = "length (h ! arr) - 1"
  have "length (fst (shuffle_loop rnd c ?i ?q ?h1)) = length ?h1
       \<and> (\<forall>p. p \<noteq> ?q \<longrightarrow> fst (shuffle_loop rnd c ?i ?q ?h1) ! p = ?h1 ! p)
       \<and> mset (fst (shuffle_loop rnd c ?i ?q ?h1) ! ?q) = mset (?h1 ! ?q)
       \<and> snd (shuffle_loop rnd c ?i ?q ?h1) = c + ?i"
    using False by (intro shuffle_loop_props assms(1)) simp_all
  then show ?thesis
    by (simp add: shuffle_def alloc_def split_beta nth_append)
qed

text \<open>
  Claim C10. For every array \<open>arr\<close> on the heap and every sequence of draws that
  \<open>Math.random()\<close> can return (each in \<open>[0, 1)\<close>), \<open>shuffle\<close> leaves \<open>arr\<close> and every other
  array that existed before the call unchanged, returns a reference that did not exist
  before the call, and the returned array has the same multiset of elements as \<open>arr\<close>.
\<close>

theorem C10_shuffle_copies_and_permutes:
  assumes "\<forall>k. 0 \<le> rnd k \<and> rnd k < 1" and "arr < length h"
  shows "case shuffle rnd c h arr of (h', a, c') \<Rightarrow>
           h' ! arr = h ! arr \<and> (\<forall>p < length h. h' ! p = h ! p)
         \<and> a = length h \<and> a \<noteq> arr
         \<and> mset (h' ! a) = mset (h ! arr)"
  using shuffle_props [OF assms, of c] assms(2) by (auto simp: split_beta)

text \<open>The theorem at the array \<open>[1, 2, 3]\<close> with every draw \<open>0.5\<close>: the copy is \<open>[1, 3, 2]\<close>.\<close>

theorem C10_shuffle_witness:
  "(\<forall>k. 0 \<le> draws_half k \<and> draws_half k < 1) \<and> 0 < length [[1, 2, 3 :: nat]]
   \<and> shuffle draws_half 0 [[1, 2, 3 :: nat]] 0 = ([[1, 2, 3], [1, 3, 2]], 1, 2)
   \<and> mset [1, 3, 2 :: nat] = mset ([[1, 2, 3]] ! 0)"
  using C10_shuffle_copies_and_permutes [of draws_half 0 "[[1, 2, 3 :: nat]]" 0]
  by (simp add: draws_half_def shuffle_def alloc_def swap_def Let_def)

lemma buildQueue_mset:
  assumes "\<forall>k. 0 \<le> rnd k \<and> rnd k < 1"
  shows "mset (fst (buildQueue rnd c ws k)) = mset (concat (map (replicate (nat k)) ws))"
  using shuffle_props [OF assms, of 0 "[push_wallets ws k []]" c]
  by (simp add: buildQueue_def alloc_def split_beta push_wallets_eq)

lemma cli_buildQueue_mset:
  assumes "\<forall>k. 0 \<le> rnd k \<and> rnd k < 1"
  shows "mset (fst (cli_buildQueue rnd c ws k)) = mset (concat (map (replicate (nat k)) ws))"
proof -
  define q where "q = push_wallets ws k []"
  have "mset (fst (shuffle_loop rnd c (length q - 1) 0 [q]) ! 0) = mset q"
  proof (cases "q = []")
    case True
    then show ?thesis by simp
  next
    case False
    then show ?thesis
      using shuffle_loop_props [OF assms, of 0 "[q]" "length q - 1" c] by simp
  qed
  then show ?thesis
    by (simp add: cli_buildQueue_def alloc_def split_beta q_def push_wallets_eq)
qed

lemma count_list_distinct: "distinct xs \<Longrightarrow> x \<in> set xs \<Longrightarrow> count_list xs x = 1"
  by (induction xs) (auto simp: count_list_0_iff)

lemma counts_of_mset:
  assumes "mset q = mset (concat (map (replicate n) ws))"
  shows "length q = length ws * n \<and> (\<forall>w. count_list q w = n * count_list ws w)"
proof -
  have "length q = length (concat (map (replicate n) ws))"
    using assms by (metis size_mset)
  moreover have "length (concat (map (replicate n) ws)) = length ws * n"
    by (induction ws) simp_all
  moreover have "count_list q w = n * count_list ws w" for w
    using assms count_list_concat_replicate [of n ws w] by (metis count_mset)
  ultimately show ?thesis by simp
qed

text \<open>
  Claim C1, as amended. For every non-empty recipient list, every \<open>sendPerWallet \<ge> 1\<close> and
  every sequence of draws in \<open>[0, 1)\<close>, the queue of \<open>buildQueue\<close> (and the one the interactive
  client builds in place) has length \<open>|wallets| * sendPerWallet\<close>, and every recipient occurs in
  it \<open>sendPerWallet\<close> times its number of occurrences in the recipient list: exactly
  \<open>sendPerWallet\<close> times when the list has no duplicates.
\<close>

theorem C1_queue_counts:
  assumes "\<forall>k. 0 \<le> rnd k \<and> rnd k < 1" and "wallets \<noteq> []" and "1 \<le> sendPerWallet"
  shows "length (fst (buildQueue rnd c wallets sendPerWallet)) = length wallets * nat sendPerWallet
       \<and> (\<forall>w. count_list (fst (buildQueue rnd c wallets sendPerWallet)) w
               = nat sendPerWallet * count_list wallets w)
       \<and> (distinct wallets \<longrightarrow>
            (\<forall>w \<in> set wallets. count_list (fst (buildQueue rnd c wallets sendPerWallet)) w
               = nat sendPerWallet))
       \<and> length (fst (cli_buildQueue rnd c wallets sendPerWallet)) = length wallets * nat sendPerWallet
       \<and> (\<forall>w. count_list (fst (cli_buildQueue rnd c wallets sendPerWallet)) w
               = nat sendPerWallet * count_list wallets w)"
  using counts_of_mset [OF buildQueue_mset [OF assms(1)], of c wallets sendPerWallet]
        counts_of_mset [OF cli_buildQueue_mset [OF assms(1)], of c wallets sendPerWallet]
  by (simp add: count_list_distinct)

text \<open>
  Claim C1 as stated fails when a recipient is listed twice: nothing removes duplicates, so
  with the recipients \<open>0xA, 0xA\<close> and one send per wallet the recipient \<open>0xA\<close> is queued twice.
\<close>

theorem C1_queue_counterexample:
  "[''0xA'', ''0xA''] \<noteq> [] \<and> (1::int) \<le> 1 \<and> ''0xA'' \<in> set [''0xA'', ''0xA'']
   \<and> fst (buildQueue draws_zero 0 [''0xA'', ''0xA''] 1) = [''0xA'', ''0xA'']
   \<and> count_list (fst (buildQueue draws_zero 0 [''0xA'', ''0xA''] 1)) ''0xA'' \<noteq> nat 1"
  by (simp add: buildQueue_def shuffle_def alloc_def swap_def Let_def draws_zero_def
      push_sends.simps)

text \<open>The amended claim at three recipients, two sends each, every draw \<open>0.5\<close>.\<close>

theorem C1_queue_witness:
  "(\<forall>k. 0 \<le> draws_half k \<and> draws_half k < 1) \<and> [''0xA'', ''0xB'', ''0xC''] \<noteq> [] \<and> (1::int) \<le> 2
   \<and> fst (buildQueue draws_half 0 [''0xA'', ''0xB'', ''0xC''] 2)
       = [''0xA'', ''0xC'', ''0xA'', ''0xC'', ''0xB'', ''0xB'']
   \<and> length (fst (buildQueue draws_half 0 [''0xA'', ''0xB'', ''0xC''] 2)) = 3 * nat 2
   \<and> count_list (fst (buildQueue draws_half 0 [''0xA'', ''0xB'', ''0xC''] 2)) ''0xB'' = nat 2"
  using C1_queue_counts [of draws_half "[''0xA'', ''0xB'', ''0xC'']" 2 0]
  by (simp add: draws_half_def buildQueue_def shuffle_def alloc_def swap_def Let_def
      push_sends.simps)

section \<open>Properties of one transfer\<close>

lemma fetch_simps [simp]:
  "fst (fetch E to amt W) = network E (fetches W)"
  "fetches (snd (fetch E to amt W)) = Suc (fetches W)"
  "stats (snd (fetch E to amt W)) = stats W"
  "draws (snd (fetch E to amt W)) = draws W"
  "clock_reads (snd (fetch E to amt W)) = clock_reads W"
  "trace (snd (fetch E to amt W)) = trace W @ [Submit to amt]"
  by (simp_all add: fetch_def emit_def)

lemma emit_simps [simp]:
  "fetches (emit e W) = fetches W"
  "stats (emit e W) = stats W"
  "draws (emit e W) = draws W"
  "clock_reads (emit e W) = clock_reads W"
  "trace (emit e W) = trace W @ [e]"
  by (simp_all add: emit_def)

lemma count_attempt_simps [simp]:
  "fetches (count_attempt E W) = fetches W"
  "draws (count_attempt E W) = draws W"
  "trace (count_attempt E W) = trace W"
  "stats_total (stats (count_attempt E W)) = Suc (stats_total (stats W))"
  "stats_success (stats (count_attempt E W)) = stats_success (stats W)"
  "stats_failed (stats (count_attempt E W)) = stats_failed (stats W)"
  "stats_amount (stats (count_attempt E W)) = stats_amount (stats W)"
  by (simp_all add: count_attempt_def Let_def)

lemma count_failed_simps [simp]:
  "fetches (count_failed W) = fetches W"
  "draws (count_failed W) = draws W"
  "clock_reads (count_failed W) = clock_reads W"
  "trace (count_failed W) = trace W"
  "stats_total (stats (count_failed W)) = stats_total (stats W)"
  "stats_success (stats (count_failed W)) = stats_success (stats W)"
  "stats_failed (stats (count_failed W)) = Suc (stats_failed (stats W))"
  "stats_amount (stats (count_failed W)) = stats_amount (stats W)"
  "stats_start (stats (count_failed W)) = stats_start (stats W)"
  by (simp_all add: count_failed_def)

lemma count_success_simps [simp]:
  "fetches (count_success a W) = fetches W"
  "draws (count_success a W) = draws W"
  "clock_reads (count_success a W) = clock_reads W"
  "trace (count_success a W) = trace W"
  "stats_total (stats (count_success a W)) = stats_total (stats W)"
  "stats_success (stats (count_success a W)) = Suc (stats_success (stats W))"
  "stats_failed (stats (count_success a W)) = stats_failed (stats W)"
  "stats_amount (stats (count_success a W)) = stats_amount (stats W) + a"
  "stats_start (stats (count_success a W)) = stats_start (stats W)"
  by (simp_all add: count_success_def)

lemma sendWith_cases:
  obtains
    (retry) status p data where
      "network E (fetches W) = Responded status p" "parse_body p = Some data"
      "d_status data = JNum 429 \<or> status = 429" "rc < n"
      "sendWith E n to amt rc W =
         sendWith E n to amt (rc + 1) (emit (Backoff (waitTime rc)) (after_fetch E to amt rc W))"
  | (sent) h where
      "sendWith E n to amt rc W = (Success h to amt, count_success amt (after_fetch E to amt rc W))"
  | (failed) e where
      "sendWith E n to amt rc W = (Failure e to amt, count_failed (after_fetch E to amt rc W))"
proof (cases "network E (fetches W)")
  case (Threw msg)
  then have "sendWith E n to amt rc W
      = (Failure (JStr msg) to amt, count_failed (after_fetch E to amt rc W))"
    by (subst sendWith.simps) (simp add: after_fetch_def fetch_def Let_def)
  then show ?thesis by (rule failed)
next
  case (Responded status p)
  show ?thesis
  proof (cases "parse_body p")
    case None
    with Responded have "sendWith E n to amt rc W
        = (Failure (JStr null_status_error) to amt, count_failed (after_fetch E to amt rc W))"
      by (subst sendWith.simps) (simp add: after_fetch_def fetch_def Let_def)
    then show ?thesis by (rule failed)
  next
    case (Some data)
    show ?thesis
    proof (cases "(d_status data = JNum 429 \<or> status = 429) \<and> rc < n")
      case True
      with Responded Some have "sendWith E n to amt rc W =
         sendWith E n to amt (rc + 1) (emit (Backoff (waitTime rc)) (after_fetch E to amt rc W))"
        by (subst sendWith.simps) (simp add: after_fetch_def fetch_def Let_def)
      with True Responded Some show ?thesis by (intro retry) auto
    next
      case False
      show ?thesis
      proof (cases "d_success data = JBool True")
        case True
        with False Responded Some have "sendWith E n to amt rc W
            = (Success (hash_of data) to amt, count_success amt (after_fetch E to amt rc W))"
          by (subst sendWith.simps) (auto simp add: after_fetch_def fetch_def Let_def)
        then show ?thesis by (rule sent)
      next
        case F2: False
        with False Responded Some have "sendWith E n to amt rc W
            = (Failure (errMsg data) to amt, count_failed (after_fetch E to amt rc W))"
          by (subst sendWith.simps) (auto simp add: after_fetch_def fetch_def Let_def)
        then show ?thesis by (rule failed)
      qed
    qed
  qed
qed


lemma attempt_events_0: "attempt_events to amt rc 0 = [Submit to amt]"
  by (simp add: attempt_events_def)

lemma attempt_events_Suc:
  "attempt_events to amt rc (Suc k)
     = Submit to amt # Backoff (waitTime rc) # attempt_events to amt (Suc rc) k"
  by (simp add: attempt_events_def upt_conv_Cons del: upt_Suc)

lemma after_fetch_simps [simp]:
  "fetches (after_fetch E to amt rc W) = Suc (fetches W)"
  "draws (after_fetch E to amt rc W) = draws W"
  "trace (after_fetch E to amt rc W) = trace W @ [Submit to amt]"
  "stats_total (stats (after_fetch E to amt rc W)) = stats_total (stats W) + (if rc = 0 then 1 else 0)"
  "stats_success (stats (after_fetch E to amt rc W)) = stats_success (stats W)"
  "stats_failed (stats (after_fetch E to amt rc W)) = stats_failed (stats W)"
  "stats_amount (stats (after_fetch E to amt rc W)) = stats_amount (stats W)"
  by (simp_all add: after_fetch_def)

lemma sendWith_effect: "send_effect n to amt rc W (sendWith E n to amt rc W)"
proof (induction k \<equiv> "n - rc" arbitrary: rc W)
  case 0
  show ?case
  proof (cases rule: sendWith_cases [of E W rc n to amt])
    case (retry status p data)
    with 0 show ?thesis by simp
  next
    case (sent h)
    then show ?thesis by (simp add: send_effect_def attempt_events_0)
  next
    case (failed e)
    then show ?thesis by (simp add: send_effect_def attempt_events_0)
  qed
next
  case (Suc k)
  show ?case
  proof (cases rule: sendWith_cases [of E W rc n to amt])
    case (retry status p data)
    let ?W2 = "emit (Backoff (waitTime rc)) (after_fetch E to amt rc W)"
    let ?out = "sendWith E n to amt (Suc rc) ?W2"
    have step: "sendWith E n to amt rc W = ?out" using retry(5) by simp
    have "k = n - Suc rc" using Suc.hyps(2) by simp
    then have IH: "send_effect n to amt (Suc rc) ?W2 ?out" by (rule Suc.hyps(1))
    from IH have "Suc (fetches W) < fetches (snd ?out)" by (simp add: send_effect_def)
    then obtain m where m: "fetches (snd ?out) = fetches W + 2 + m"
      using less_imp_Suc_add [of "Suc (fetches W)" "fetches (snd ?out)"] by auto
    from IH have tr: "trace (snd ?out)
        = trace W @ Submit to amt # Backoff (waitTime rc) # attempt_events to amt (Suc rc) m"
      by (simp add: send_effect_def m)
    from IH have "fetches (snd ?out) \<le> Suc (fetches W) + (n - Suc rc) + 1"
      by (simp add: send_effect_def)
    with retry(4) have bound: "fetches (snd ?out) \<le> fetches W + (n - rc) + 1"
      by linarith
    from IH have rest:
      "draws (snd ?out) = draws W"
      "stats_total (stats (snd ?out)) = stats_total (stats W) + (if rc = 0 then 1 else 0)"
      "stats_success (stats (snd ?out))
         = stats_success (stats W) + (if is_success (fst ?out) then 1 else 0)"
      "stats_failed (stats (snd ?out))
         = stats_failed (stats W) + (if is_success (fst ?out) then 0 else 1)"
      "stats_amount (stats (snd ?out))
         = stats_amount (stats W) + (if is_success (fst ?out) then amt else 0)"
      "amount_of (fst ?out) = amt" "toAddress_of (fst ?out) = to"
      by (simp_all add: send_effect_def)
    have cnt: "fetches (snd ?out) - fetches W - 1 = Suc m" using m by simp
    show ?thesis
      unfolding step send_effect_def cnt attempt_events_Suc
      using bound rest tr m by simp
  next
    case (sent h)
    then show ?thesis by (simp add: send_effect_def attempt_events_0)
  next
    case (failed e)
    then show ?thesis by (simp add: send_effect_def attempt_events_0)
  qed
qed


lemma sendTransactionWith_world:
  "snd (sendTransactionWith E n to amt rc W) = snd (fetch E to amt W)"
  by (simp add: sendTransactionWith_def split: prod.splits fetch_result.splits parsed.splits
      sum.splits)

lemma sendTransactionWith_retry:
  "fst (sendTransactionWith E n to amt rc W) = Retry w rc'
   \<Longrightarrow> rc < n \<and> rc' = rc + 1 \<and> w = cli_waitTime rc"
  by (simp add: sendTransactionWith_def split: prod.splits fetch_result.splits parsed.splits
      sum.splits if_splits)

lemma cli_events_Suc:
  "cli_events to amt rc (Suc k)
     = Backoff (cli_waitTime rc) # Submit to amt # cli_events to amt (Suc rc) k"
  by (simp add: cli_events_def upt_conv_Cons del: upt_Suc)

lemma retry_loop_effect: "retry_effect n to amt result W (retry_loop E n to amt result W)"
proof (induction k \<equiv> "case result of Retry w rc \<Rightarrow> Suc (n - rc) | _ \<Rightarrow> 0"
        arbitrary: result W)
  case 0
  then show ?case
    by (cases result) (simp_all add: retry_effect_def retry_loop.simps)
next
  case (Suc k)
  then obtain w rc where result: "result = Retry w rc" and k: "k = n - rc"
    by (cases result) simp_all
  let ?W1 = "emit (Backoff w) W"
  let ?r = "fst (sendTransactionWith E n to amt rc ?W1)"
  let ?W2 = "snd (sendTransactionWith E n to amt rc ?W1)"
  let ?out = "retry_loop E n to amt ?r ?W2"
  have step: "retry_loop E n to amt (Retry w rc) W = ?out"
    by (subst retry_loop.simps) (simp split: prod.splits)
  have W2: "fetches ?W2 = Suc (fetches W)" "draws ?W2 = draws W" "stats ?W2 = stats W"
    "trace ?W2 = trace W @ [Backoff w, Submit to amt]"
    by (simp_all add: sendTransactionWith_world)
  show ?case
  proof (cases "is_retry ?r")
    case False
    then have "?out = (?r, ?W2)"
      by (cases ?r) (simp_all add: retry_loop.simps)
    with False W2 show ?thesis
      unfolding result step by (simp add: retry_effect_def cli_events_def)
  next
    case True
    then obtain w' rc' where r: "?r = Retry w' rc'" by (cases ?r) simp_all
    from sendTransactionWith_retry [OF r]
    have lt: "rc < n" and rc': "rc' = Suc rc" and w': "w' = cli_waitTime rc" by simp_all
    have "k = (case ?r of Retry w rc \<Rightarrow> Suc (n - rc) | _ \<Rightarrow> 0)"
      using k lt by (simp add: r rc')
    then have IH: "retry_effect n to amt ?r ?W2 ?out" by (rule Suc.hyps(1))
    from IH have a: "\<not> is_retry (fst ?out)" "draws (snd ?out) = draws W"
      "stats (snd ?out) = stats W" "Suc (fetches W) < fetches (snd ?out)"
      "fetches (snd ?out) \<le> Suc (fetches W) + (n - Suc rc) + 1"
      by (simp_all add: retry_effect_def r rc' w' W2)
    from a(4) obtain m where m: "fetches (snd ?out) = Suc (Suc (fetches W + m))"
      using less_imp_Suc_add [of "Suc (fetches W)" "fetches (snd ?out)"] by auto
    from IH have tr0: "trace (snd ?out)
        = trace W @ Backoff w # Submit to amt # Backoff (cli_waitTime rc) # Submit to amt
            # cli_events to amt (Suc rc) (fetches (snd ?out) - fetches ?W2 - 1)"
      by (simp add: retry_effect_def r rc' w' W2)
    have cnt: "fetches (snd ?out) - fetches ?W2 - 1 = m" using m W2 by simp
    have tr: "trace (snd ?out)
        = trace W @ Backoff w # Submit to amt # cli_events to amt rc (Suc m)"
      unfolding tr0 cnt by (simp add: cli_events_Suc)
    from a(5) lt have bound: "fetches (snd ?out) \<le> fetches W + (n - rc) + 1"
      by linarith
    show ?thesis
      unfolding result step retry_effect_def
      using a(1-4) tr m bound by simp
  qed
qed

lemma cli_submit_effect:
  "\<not> is_retry (fst (cli_submit E n to amt W))
   \<and> draws (snd (cli_submit E n to amt W)) = draws W
   \<and> stats (snd (cli_submit E n to amt W)) = stats W
   \<and> fetches W < fetches (snd (cli_submit E n to amt W))
   \<and> fetches (snd (cli_submit E n to amt W)) \<le> fetches W + n + 1
   \<and> trace (snd (cli_submit E n to amt W))
       = trace W @ Submit to amt
           # cli_events to amt 0 (fetches (snd (cli_submit E n to amt W)) - fetches W - 1)"
proof -
  let ?r = "fst (sendTransactionWith E n to amt 0 W)"
  let ?W1 = "snd (sendTransactionWith E n to amt 0 W)"
  have sub: "cli_submit E n to amt W = retry_loop E n to amt ?r ?W1"
    by (simp add: cli_submit_def split: prod.splits)
  have W1: "fetches ?W1 = Suc (fetches W)" "draws ?W1 = draws W" "stats ?W1 = stats W"
    "trace ?W1 = trace W @ [Submit to amt]"
    by (simp_all add: sendTransactionWith_world)
  have eff: "retry_effect n to amt ?r ?W1 (retry_loop E n to amt ?r ?W1)"
    by (rule retry_loop_effect)
  show ?thesis
  proof (cases "is_retry ?r")
    case False
    with eff have "retry_loop E n to amt ?r ?W1 = (?r, ?W1)"
      by (cases ?r) (simp_all add: retry_effect_def)
    with False W1 show ?thesis unfolding sub by (simp add: cli_events_def)
  next
    case True
    then obtain w rc where r: "?r = Retry w rc" by (cases ?r) simp_all
    from sendTransactionWith_retry [OF r]
    have lt: "0 < n" and rc: "rc = Suc 0" and w: "w = cli_waitTime 0" by simp_all
    let ?out = "retry_loop E n to amt ?r ?W1"
    from eff have a: "\<not> is_retry (fst ?out)" "draws (snd ?out) = draws W"
      "stats (snd ?out) = stats W" "Suc (fetches W) < fetches (snd ?out)"
      "fetches (snd ?out) \<le> Suc (fetches W) + (n - Suc 0) + 1"
      by (simp_all add: retry_effect_def r rc W1)
    from a(4) obtain m where m: "fetches (snd ?out) = Suc (Suc (fetches W + m))"
      using less_imp_Suc_add [of "Suc (fetches W)" "fetches (snd ?out)"] by auto
    from eff have tr0: "trace (snd ?out)
        = trace W @ Submit to amt # Backoff (cli_waitTime 0) # Submit to amt
            # cli_events to amt (Suc 0) (fetches (snd ?out) - fetches ?W1 - 1)"
      by (simp add: retry_effect_def r rc w W1)
    have cnt: "fetches (snd ?out) - fetches ?W1 - 1 = m" using m W1 by simp
    have tr: "trace (snd ?out) = trace W @ Submit to amt # cli_events to amt 0 (Suc m)"
      unfolding tr0 cnt by (simp add: cli_events_Suc)
    from a(5) lt have bound: "fetches (snd ?out) \<le> fetches W + n + 1" by linarith
    show ?thesis unfolding sub using a(1-4) tr m bound by simp
  qed
qed

lemma result_shape:
  "amount_of r = amt \<Longrightarrow> toAddress_of r = to
   \<Longrightarrow> (\<exists>h. r = Success h to amt) \<or> (\<exists>e. r = Failure e to amt)"
  by (cases r) simp_all

text \<open>
  Claim C2. For every recipient, amount, environment and state, a transfer with the retry
  budget \<open>n\<close> makes at least one and at most \<open>n + 1\<close> requests, and it returns a success or a
  failure for that recipient and amount. This holds for \<open>send\<close> with any budget and with
  the budget \<open>MAX_RETRIES = 3\<close> of the source, and for the first submission followed by the
  retry loop of the interactive client, whose result is never the retry object. Both
  functions are total, so the transfer always returns.
\<close>

theorem C2_retry_bound:
  "fetches W < fetches (snd (sendWith E n to amt 0 W))
   \<and> fetches (snd (sendWith E n to amt 0 W)) \<le> fetches W + (n + 1)
   \<and> ((\<exists>h. fst (sendWith E n to amt 0 W) = Success h to amt)
      \<or> (\<exists>e. fst (sendWith E n to amt 0 W) = Failure e to amt))
   \<and> fetches (snd (send E to amt W)) \<le> fetches W + (MAX_RETRIES + 1)
   \<and> fetches W < fetches (snd (cli_submit E n to amt W))
   \<and> fetches (snd (cli_submit E n to amt W)) \<le> fetches W + (n + 1)
   \<and> \<not> is_retry (fst (cli_submit E n to amt W))"
proof -
  have e: "send_effect n to amt 0 W (sendWith E n to amt 0 W)"
    by (rule sendWith_effect)
  then have "(\<exists>h. fst (sendWith E n to amt 0 W) = Success h to amt)
      \<or> (\<exists>e. fst (sendWith E n to amt 0 W) = Failure e to amt)"
    by (intro result_shape) (simp_all add: send_effect_def)
  then show ?thesis
    using e sendWith_effect [of MAX_RETRIES to amt 0 W E] cli_submit_effect [of E n to amt W]
    by (simp add: send_effect_def send_def)
qed

section \<open>The waits before retries and the exhausted budget\<close>

lemma backoffs_append: "backoffs (xs @ ys) = backoffs xs @ backoffs ys"
  by (induction xs rule: backoffs.induct) simp_all

lemma backoffs_attempt_events:
  "backoffs (attempt_events to amt rc k) = map waitTime [rc ..< rc + k]"
proof (induction k arbitrary: rc)
  case 0
  then show ?case by (simp add: attempt_events_0)
next
  case (Suc k)
  have "[rc ..< rc + Suc k] = rc # [Suc rc ..< Suc rc + k]"
    by (simp add: upt_conv_Cons del: upt_Suc)
  then show ?case by (simp add: attempt_events_Suc Suc.IH del: upt_Suc)
qed

lemma backoffs_cli_events:
  "backoffs (cli_events to amt rc k) = map cli_waitTime [rc ..< rc + k]"
proof (induction k arbitrary: rc)
  case 0
  then show ?case by (simp add: cli_events_def)
next
  case (Suc k)
  have "[rc ..< rc + Suc k] = rc # [Suc rc ..< Suc rc + k]"
    by (simp add: upt_conv_Cons del: upt_Suc)
  then show ?case by (simp add: cli_events_Suc Suc.IH del: upt_Suc)
qed

text \<open>
  Claim C7. For every retry index \<open>k\<close> the wait before the next request is a fixed base
  plus \<open>k\<close> times a fixed increment: \<open>5 + 3k\<close> seconds in \<open>send\<close> and \<open>15 + 10k\<close> seconds in the
  interactive client, so consecutive waits differ by the constant \<open>3\<close> (or \<open>10\<close>). The waits
  that a transfer really performs are exactly these values for \<open>k = 0, 1, ...\<close> up to the
  number of retries it made.
\<close>

theorem C7_linear_backoff:
  "waitTime k = 5 + k * 3 \<and> waitTime (Suc k) = waitTime k + 3
   \<and> cli_waitTime k = 15 + k * 10 \<and> cli_waitTime (Suc k) = cli_waitTime k + 10
   \<and> backoffs (drop (length (trace W)) (trace (snd (sendWith E n to amt 0 W))))
       = map (\<lambda>j. 5 + j * 3) [0 ..< fetches (snd (sendWith E n to amt 0 W)) - fetches W - 1]
   \<and> backoffs (drop (length (trace W)) (trace (snd (cli_submit E n to amt W))))
       = map (\<lambda>j. 15 + j * 10) [0 ..< fetches (snd (cli_submit E n to amt W)) - fetches W - 1]"
proof -
  have "trace (snd (sendWith E n to amt 0 W))
      = trace W @ attempt_events to amt 0 (fetches (snd (sendWith E n to amt 0 W)) - fetches W - 1)"
    using sendWith_effect [of n to amt 0 W E] by (simp add: send_effect_def)
  then have a: "backoffs (drop (length (trace W)) (trace (snd (sendWith E n to amt 0 W))))
       = map waitTime [0 ..< fetches (snd (sendWith E n to amt 0 W)) - fetches W - 1]"
    by (simp add: backoffs_attempt_events)
  have "trace (snd (cli_submit E n to amt W))
       = trace W @ Submit to amt
           # cli_events to amt 0 (fetches (snd (cli_submit E n to amt W)) - fetches W - 1)"
    using cli_submit_effect [of E n to amt W] by simp
  then have b: "backoffs (drop (length (trace W)) (trace (snd (cli_submit E n to amt W))))
       = map cli_waitTime [0 ..< fetches (snd (cli_submit E n to amt W)) - fetches W - 1]"
    by (simp add: backoffs_cli_events)
  have w: "waitTime = (\<lambda>j. 5 + j * 3)" "cli_waitTime = (\<lambda>j. 15 + j * 10)"
    by (simp_all add: fun_eq_iff waitTime_def cli_waitTime_def)
  show ?thesis
    unfolding a b by (simp add: w)
qed













section \<open>The dispatch loop\<close>

lemma loop_waits_True: "loop_waits f c True w0 n = map (\<lambda>k. Some (f (c + k))) [0 ..< n]"
proof (induction n arbitrary: c w0)
  case 0
  then show ?case by simp
next
  case (Suc n)
  have "[0 ..< Suc n] = 0 # map Suc [0 ..< n]"
    by (simp add: upt_conv_Cons map_Suc_upt del: upt_Suc)
  then show ?case by (simp add: Suc.IH comp_def del: upt_Suc)
qed





lemma humanDelay_simps [simp]:
  "stats (humanDelay E mn mx W) = stats W"
  "fetches (humanDelay E mn mx W) = fetches W"
  "draws (humanDelay E mn mx W) = Suc (draws W)"
  "trace (humanDelay E mn mx W) = trace W @ [Delay (mn + random E (draws W) * (mx - mn))]"
  by (simp_all add: humanDelay_def Let_def)


lemma send_effect: "send_effect MAX_RETRIES to amt 0 W (send E to amt W)"
  unfolding send_def by (rule sendWith_effect)



lemma loop_waits_w0: "loop_waits f c True w0 n = loop_waits f c True None n"
  by (simp add: loop_waits_True)






section \<open>The waits between tasks\<close>









section \<open>Configuration, interruption and the summary\<close>



text \<open>
  Claim C4 as stated fails for \<open>--sends 0\<close>: the \<open>0\<close> is falsy, the default of two sends per
  wallet takes its place, and the run dispatches two transfers to the one recipient. The
  queue builder called with a count of \<open>0\<close> returns the empty queue.
\<close>

theorem C4_zero_sends_counterexample:
  "opt_sendPerWallet opts_zero_sends = Some 0
   \<and> (case main env_ok None opts_zero_sends None of
        Some (Done results s W) \<Rightarrow> length results = 2 \<and> fetches W = 2 \<and> sum_total s = 2
      | _ \<Rightarrow> False)
   \<and> fst (buildQueue draws_half 0 [''0xA''] 0) = []"
  by code_simp









lemma int_or_nonzero: "d \<noteq> 0 \<Longrightarrow> int_or a d \<noteq> 0"
  by (simp add: int_or_def split: option.splits)

lemma buildQueue_empty:
  assumes "wallets = [] \<or> sendPerWallet \<le> 0"
  shows "fst (buildQueue rnd n wallets sendPerWallet) = []"
proof -
  have "push_wallets wallets sendPerWallet [] = []"
    using assms by (auto simp: push_wallets_eq)
  then show ?thesis
    by (simp add: buildQueue_def shuffle_def alloc_def)
qed

text \<open>
  Claim C4, as amended. When the recipient list is empty, \<open>main\<close> reports a configuration
  error and exits with code \<open>1\<close> before any transfer is requested, and the interactive
  client prints a message and returns. A count of \<open>0\<close> sends per wallet never reaches the
  queue builder: \<open>||\<close> replaces it by the configured count or by the default \<open>2\<close>, in \<open>main\<close>,
  in \<open>runSending\<close> and in the settings menu. The queue builder has no error: for an empty
  list or a count that is not positive it returns the empty queue.
\<close>

theorem C4_configuration_guards:
  "(main_wallets opts (loaded_config opts conf) = [] \<longrightarrow>
      (\<exists>msg. main E sigint opts conf = Some (ConfigError msg)))
   \<and> exit_code (ConfigError msg') = 1 \<and> requests_made (ConfigError msg') = 0
   \<and> main_sendPerWallet opts cfg \<noteq> 0
   \<and> (opt_sendPerWallet opts = Some 0 \<longrightarrow>
        main_sendPerWallet opts cfg = int_or (field cfg cfg_sendPerWallet) 2)
   \<and> (cli_wallets c = [] \<longrightarrow> runSending E c = NoWallets)
   \<and> cli_sendsPerWallet c \<noteq> 0
   \<and> cli_sendsPerWallet (set_sendPerWallet (Some 0) c) = 2
   \<and> (wallets = [] \<or> sendPerWallet \<le> 0 \<longrightarrow>
        fst (buildQueue rnd n wallets sendPerWallet) = [])"
proof -
  have a: "\<exists>msg. main E sigint opts conf = Some (ConfigError msg)"
    if "main_wallets opts (loaded_config opts conf) = []"
    using that by (simp add: main_def Let_def)
  have b: "main_sendPerWallet opts cfg \<noteq> 0"
    unfolding main_sendPerWallet_def by (intro int_or_nonzero) simp
  have c: "main_sendPerWallet opts cfg = int_or (field cfg cfg_sendPerWallet) 2"
    if "opt_sendPerWallet opts = Some 0"
    using that by (simp add: main_sendPerWallet_def int_or_def)
  have d: "runSending E c = NoWallets" if "cli_wallets c = []"
    using that by (simp add: runSending_def Let_def)
  have e: "cli_sendsPerWallet c \<noteq> 0"
    unfolding cli_sendsPerWallet_def by (intro int_or_nonzero) simp
  have f: "cli_sendsPerWallet (set_sendPerWallet (Some 0) c) = 2"
    by (simp add: cli_sendsPerWallet_def set_sendPerWallet_def int_or_def)
  have g: "fst (buildQueue rnd n wallets sendPerWallet) = []"
    if "wallets = [] \<or> sendPerWallet \<le> 0"
    using that by (rule buildQueue_empty)
  from a b c d e f g show ?thesis by simp
qed

text \<open>
  The amended claim for a command line with a token, no recipients and \<open>--sends 0\<close>, and
  for a configuration file without wallets.
\<close>

theorem C4_guards_witness:
  "main_wallets opts_no_wallets (loaded_config opts_no_wallets None) = []
   \<and> opt_sendPerWallet opts_no_wallets = Some 0
   \<and> cli_wallets cfg_no_wallets = []
   \<and> ([''0xA''] = [] \<or> (0 :: int) \<le> 0)
   \<and> main env_ok None opts_no_wallets None = Some (ConfigError ''Error: No wallets provided'')
   \<and> main_sendPerWallet opts_no_wallets None = 2
   \<and> runSending env_ok cfg_no_wallets = NoWallets
   \<and> fst (buildQueue draws_half 0 [''0xA''] 0) = []"
proof -
  note inst = C4_configuration_guards [where opts = opts_no_wallets and conf = None
      and E = env_ok and sigint = None and cfg = None and c = cfg_no_wallets
      and wallets = "[''0xA'']" and sendPerWallet = 0 and rnd = draws_half and n = 0]
  have h1: "main_wallets opts_no_wallets (loaded_config opts_no_wallets None) = []"
    by code_simp
  have h2: "opt_sendPerWallet opts_no_wallets = Some 0" by code_simp
  have h3: "cli_wallets cfg_no_wallets = []" by code_simp
  have h4: "[''0xA''] = [] \<or> (0 :: int) \<le> 0" by simp
  from inst h1 obtain msg where m: "main env_ok None opts_no_wallets None = Some (ConfigError msg)"
    by blast
  have "main env_ok None opts_no_wallets None = Some (ConfigError ''Error: No wallets provided'')"
    by code_simp
  with m have c1: "main env_ok None opts_no_wallets None
      = Some (ConfigError ''Error: No wallets provided'')"
    by simp
  from inst h2 have "main_sendPerWallet opts_no_wallets None = int_or (field None cfg_sendPerWallet) 2"
    by blast
  then have c2: "main_sendPerWallet opts_no_wallets None = 2"
    by (simp add: field_def int_or_def)
  from inst h3 have c3: "runSending env_ok cfg_no_wallets = NoWallets" by blast
  from inst h4 have c4: "fst (buildQueue draws_half 0 [''0xA''] 0) = []" by blast
  show ?thesis by (intro conjI h1 h2 h3 h4 c1 c2 c3 c4)
qed

section \<open>The scenarios of the documentation\<close>

text \<open>
  Three recipients with two sends each and every transfer successful with amount \<open>1\<close>: six
  results, \<open>total = 6\<close>, \<open>success = 6\<close>, \<open>failed = 0\<close>, \<open>amount = 6\<close>, exit code \<open>0\<close>.
\<close>

lemma scenario_six_transfers:
  "(case main env_ok None opts_three None of
      Some (Done results s W) \<Rightarrow>
        length results = 6 \<and> sum_total s = 6 \<and> sum_success s = 6 \<and> sum_failed s = 0
        \<and> sum_amount s = 6 \<and> count_list (map toAddress_of results) ''0xBBB'' = 2
    | _ \<Rightarrow> False)
   \<and> map_option exit_code (main env_ok None opts_three None) = Some 0"
  by code_simp

text \<open>
  Two answers with rate limiting and then a success: \<open>send\<close> returns the success after
  exactly three requests and waits of \<open>5\<close> and \<open>8\<close> seconds.
\<close>

lemma scenario_two_retries:
  "fst (send env_limited_twice ''0xA'' 1 initial_world) = Success (JStr ''0xabc'') ''0xA'' 1
   \<and> fetches (snd (send env_limited_twice ''0xA'' 1 initial_world)) = 3
   \<and> backoffs (trace (snd (send env_limited_twice ''0xA'' 1 initial_world))) = [5, 8]"
  by code_simp

end
